theory Spec2Isabelle
  imports Main
begin

section \<open>The session store (store/authStore.ts)\<close>

text \<open>
  The interface \<open>User\<close> has five string fields. \<open>Partial<User>\<close> is the same object with
  every key optional: \<open>None\<close> stands for a key that is absent from the argument.
\<close>

record User =
  id :: string
  email :: string
  username :: string
  fullName :: string
  role :: string

record PartialUser =
  p_id :: "string option"
  p_email :: "string option"
  p_username :: "string option"
  p_fullName :: "string option"
  p_role :: "string option"

text \<open>
  The data fields of \<open>AuthState\<close>. \<open>None\<close> is JavaScript's \<open>null\<close>. The three members
  \<open>login\<close>, \<open>logout\<close> and \<open>updateUser\<close> of the interface are the functions below.
\<close>

record AuthState =
  user :: "User option"
  accessToken :: "string option"
  refreshToken :: "string option"
  isAuthenticated :: bool

text \<open>The initial value passed to \<open>create\<close>: the empty session.\<close>

definition initial_state :: AuthState where
  "initial_state =
     \<lparr>user = None, accessToken = None, refreshToken = None, isAuthenticated = False\<rparr>"

text \<open>
  \<open>login\<close> replaces all four fields through one call of \<open>set\<close>. Its first parameter
  is declared \<open>User\<close>, but the response interceptor passes \<open>getState().user!\<close>, and the
  non-null assertion is erased at run time, so the value that arrives may be \<open>null\<close>:
  the parameter is a \<open>User option\<close> here.
\<close>

definition login :: "User option \<Rightarrow> string \<Rightarrow> string \<Rightarrow> AuthState \<Rightarrow> AuthState" where
  "login u a r s =
     s\<lparr>user := u, accessToken := Some a, refreshToken := Some r, isAuthenticated := True\<rparr>"

definition logout :: "AuthState \<Rightarrow> AuthState" where
  "logout s =
     s\<lparr>user := None, accessToken := None, refreshToken := None, isAuthenticated := False\<rparr>"

text \<open>The object spread \<open>{ ...state.user, ...userData }\<close>: keys of \<open>userData\<close> win.\<close>

definition spread :: "User \<Rightarrow> PartialUser \<Rightarrow> User" where
  "spread u p =
     \<lparr>id = (case p_id p of Some v \<Rightarrow> v | None \<Rightarrow> id u),
      email = (case p_email p of Some v \<Rightarrow> v | None \<Rightarrow> email u),
      username = (case p_username p of Some v \<Rightarrow> v | None \<Rightarrow> username u),
      fullName = (case p_fullName p of Some v \<Rightarrow> v | None \<Rightarrow> fullName u),
      role = (case p_role p of Some v \<Rightarrow> v | None \<Rightarrow> role u)\<rparr>"

definition updateUser :: "PartialUser \<Rightarrow> AuthState \<Rightarrow> AuthState" where
  "updateUser userData s =
     s\<lparr>user := (case user s of Some u \<Rightarrow> Some (spread u userData) | None \<Rightarrow> None)\<rparr>"

text \<open>
  The call the response interceptor makes when the refresh endpoint has answered:
  \<open>getState().login(getState().user!, access_token, refresh_token)\<close>.
\<close>

definition refresh_login :: "string \<Rightarrow> string \<Rightarrow> AuthState \<Rightarrow> AuthState" where
  "refresh_login access_token refresh_token s = login (user s) access_token refresh_token s"

text \<open>The operations that write the session, and a run of them from the empty session.\<close>

datatype store_op =
    Login User string string
  | Logout
  | UpdateUser PartialUser
  | RefreshLogin string string

fun apply_store_op :: "AuthState \<Rightarrow> store_op \<Rightarrow> AuthState" where
  "apply_store_op s (Login u a r) = login (Some u) a r s"
| "apply_store_op s Logout = logout s"
| "apply_store_op s (UpdateUser p) = updateUser p s"
| "apply_store_op s (RefreshLogin a r) = refresh_login a r s"

definition run_ops :: "store_op list \<Rightarrow> AuthState" where
  "run_ops ops = foldl apply_store_op initial_state ops"

text \<open>
  Reading the history of a run: which operations write the tokens and the flag
  (login and refresh do, with \<open>isAuthenticated: true\<close>), which only touch the user
  (\<open>updateUser\<close>), the last operation of a run that is not a user update, and the
  arguments of the user updates of a run.
\<close>

fun sets_session :: "store_op \<Rightarrow> bool" where
  "sets_session (Login u a r) = True"
| "sets_session (RefreshLogin a r) = True"
| "sets_session Logout = False"
| "sets_session (UpdateUser p) = False"

fun is_update :: "store_op \<Rightarrow> bool" where
  "is_update (UpdateUser p) = True"
| "is_update (Login u a r) = False"
| "is_update (RefreshLogin a r) = False"
| "is_update Logout = False"

fun last_session_write :: "store_op list \<Rightarrow> store_op option" where
  "last_session_write [] = None"
| "last_session_write (x # xs) =
     (case last_session_write xs of
        Some y \<Rightarrow> Some y
      | None \<Rightarrow> if is_update x then None else Some x)"

fun partials :: "store_op list \<Rightarrow> PartialUser list" where
  "partials [] = []"
| "partials (UpdateUser p # xs) = p # partials xs"
| "partials (Login u a r # xs) = partials xs"
| "partials (RefreshLogin a r # xs) = partials xs"
| "partials (Logout # xs) = partials xs"

text \<open>
  The response interceptor reaches its refresh login only after it has read a truthy
  \<open>refreshToken\<close> from the store (\<open>if (refreshToken)\<close>). A run is guarded when every
  refresh login in it meets a session that still holds such a token, as it does when no
  other operation comes between the interceptor's test and the answer of the refresh
  endpoint.
\<close>

fun refresh_guarded :: "AuthState \<Rightarrow> store_op list \<Rightarrow> bool" where
  "refresh_guarded s [] = True"
| "refresh_guarded s (RefreshLogin a r # xs) =
     (refreshToken s \<noteq> None \<and> refreshToken s \<noteq> Some []
      \<and> refresh_guarded (refresh_login a r s) xs)"
| "refresh_guarded s (Login u a r # xs) = refresh_guarded (login (Some u) a r s) xs"
| "refresh_guarded s (Logout # xs) = refresh_guarded (logout s) xs"
| "refresh_guarded s (UpdateUser p # xs) = refresh_guarded (updateUser p s) xs"

text \<open>The flag and the three fields go together: all set, or none.\<close>

definition session_consistent :: "AuthState \<Rightarrow> bool" where
  "session_consistent s \<longleftrightarrow>
     (isAuthenticated s \<longleftrightarrow> user s \<noteq> None)
     \<and> (isAuthenticated s \<longleftrightarrow> accessToken s \<noteq> None)
     \<and> (isAuthenticated s \<longleftrightarrow> refreshToken s \<noteq> None)"

subsection \<open>Persistence options of the store\<close>

text \<open>
  The store is a JavaScript object with seven members: four data fields and three
  functions. Objects are association lists from keys to values, in the order the keys are
  written; a function member is kept by name only.
\<close>

datatype js_value =
    JUndefined
  | JNull
  | JString string
  | JNumber int
  | JBoolean bool
  | JObject "(string \<times> js_value) list"
  | JFunction string

definition js_string_or_null :: "string option \<Rightarrow> js_value" where
  "js_string_or_null x = (case x of None \<Rightarrow> JNull | Some t \<Rightarrow> JString t)"

definition js_user :: "User option \<Rightarrow> js_value" where
  "js_user x =
     (case x of
        None \<Rightarrow> JNull
      | Some u \<Rightarrow>
          JObject [(''id'', JString (id u)), (''email'', JString (email u)),
                   (''username'', JString (username u)), (''fullName'', JString (fullName u)),
                   (''role'', JString (role u))])"

definition store_object :: "AuthState \<Rightarrow> (string \<times> js_value) list" where
  "store_object s =
     [(''user'', js_user (user s)),
      (''accessToken'', js_string_or_null (accessToken s)),
      (''refreshToken'', js_string_or_null (refreshToken s)),
      (''isAuthenticated'', JBoolean (isAuthenticated s)),
      (''login'', JFunction ''login''),
      (''logout'', JFunction ''logout''),
      (''updateUser'', JFunction ''updateUser'')]"

text \<open>Member access \<open>state.key\<close>: \<open>undefined\<close> when the object has no such key.\<close>

definition member :: "(string \<times> js_value) list \<Rightarrow> string \<Rightarrow> js_value" where
  "member obj k = (case map_of obj k of None \<Rightarrow> JUndefined | Some v \<Rightarrow> v)"

definition persist_name :: string where
  "persist_name = ''chainsense-auth''"

definition partialize :: "(string \<times> js_value) list \<Rightarrow> (string \<times> js_value) list" where
  "partialize state =
     [(''user'', member state ''user''),
      (''accessToken'', member state ''accessToken''),
      (''refreshToken'', member state ''refreshToken''),
      (''isAuthenticated'', member state ''isAuthenticated'')]"

text \<open>
  Modelled from the spec: the \<open>persist\<close> middleware is imported from the zustand
  library and is not part of this repository. The spec says that every write of the store persists
  the state to durable client-side storage under a fixed key. What this repository
  decides is that key (\<open>name\<close>) and the record to store (\<open>partialize\<close>); the form in
  which the middleware stores the record (any envelope it puts around it) is the
  parameter \<open>envelope\<close>. Durable storage is a map from keys to stored values, and the
  store object is given as it is at the write, whatever members it has.
\<close>

definition persist_write ::
  "((string \<times> js_value) list \<Rightarrow> js_value) \<Rightarrow> (string \<times> js_value) list \<Rightarrow>
     (string \<rightharpoonup> js_value) \<Rightarrow> (string \<rightharpoonup> js_value)" where
  "persist_write envelope state storage =
     storage(persist_name \<mapsto> envelope (partialize state))"

section \<open>The HTTP client (services/api.ts)\<close>

text \<open>
  Of a request config the interceptors read and write two things: the header
  \<open>headers.Authorization\<close> and the marker \<open>_retry\<close> (absent, so falsy, on a fresh
  request). \<open>url\<close> stands for the rest of the request.
\<close>

record RequestConfig =
  url :: string
  authorization :: "string option"
  retry :: bool

record Response =
  status :: nat
  data :: string
  config :: RequestConfig

text \<open>
  An error of the client: \<open>error.config\<close> and \<open>error.response?.status\<close>, which is
  \<open>None\<close> when no response arrived (transport failure).
\<close>

record AxiosError =
  err_config :: RequestConfig
  err_status :: "nat option"

text \<open>
  The body of a successful refresh: \<open>{ access_token, refresh_token }\<close>. Both are
  strings, as the parameters of \<open>login\<close> that receive them are declared.
\<close>

record RefreshBody =
  access_token :: string
  refresh_token :: string

text \<open>What one logical request does to the outside, in order.\<close>

datatype event =
    Sent RequestConfig
  | RefreshPosted string
  | LogoutCalled

text \<open>
  The network is the environment. A send through \<open>api\<close> is fulfilled with a status and
  a body, or rejected with the status of the error response, if there was one; the
  bare \<open>axios.post\<close> to the refresh endpoint is fulfilled with a body or rejected with
  an error of its own. Both may depend on everything that happened before.
\<close>

datatype transport_outcome =
    Fulfilled nat string
  | Rejected "nat option"

record Network =
  transport :: "event list \<Rightarrow> RequestConfig \<Rightarrow> transport_outcome"
  refresh_endpoint :: "event list \<Rightarrow> string \<Rightarrow> AxiosError + RefreshBody"

record World =
  auth :: AuthState
  trace :: "event list"

text \<open>
  The request interceptor: \<open>if (accessToken) config.headers.Authorization = ...\<close>.
  The test is JavaScript truthiness: \<open>null\<close> and the empty string both fail it.
\<close>

definition request_interceptor :: "AuthState \<Rightarrow> RequestConfig \<Rightarrow> RequestConfig" where
  "request_interceptor s cfg =
     (case accessToken s of
        None \<Rightarrow> cfg
      | Some t \<Rightarrow> if t = [] then cfg else cfg\<lparr>authorization := Some (''Bearer '' @ t)\<rparr>)"

definition call_logout :: "World \<Rightarrow> World" where
  "call_logout w = w\<lparr>auth := logout (auth w), trace := trace w @ [LogoutCalled]\<rparr>"

text \<open>
  \<open>api\<close> sends a request through both interceptors; \<open>on_response_error\<close> is the
  rejection handler of the response interceptor, which calls \<open>api\<close> again for the
  retry. The error of a rejected send carries the config that was sent, and the
  handler's assignment \<open>originalRequest._retry = true\<close> is to that same object, so the
  error it rejects with afterwards shows the marker. The marker stays on the config that
  is sent again, so the error of the retry shows it too. \<open>return api(originalRequest)\<close> is
  not awaited inside the \<open>try\<close>: a rejected retry is the handler's result and does not
  reach the \<open>catch\<close>.
\<close>

function api :: "Network \<Rightarrow> RequestConfig \<Rightarrow> World \<Rightarrow> (AxiosError + Response) \<times> World"
  and on_response_error ::
    "Network \<Rightarrow> AxiosError \<Rightarrow> World \<Rightarrow> (AxiosError + Response) \<times> World"
where
  "api net cfg w =
     (let sent = request_interceptor (auth w) cfg;
          w1 = w\<lparr>trace := trace w @ [Sent sent]\<rparr>
      in case transport net (trace w) sent of
           Fulfilled st body \<Rightarrow> (Inr \<lparr>status = st, data = body, config = sent\<rparr>, w1)
         | Rejected st \<Rightarrow> on_response_error net \<lparr>err_config = sent, err_status = st\<rparr> w1)"
| "on_response_error net error w =
     (if err_status error = Some 401 \<and> \<not> retry (err_config error) then
        let originalRequest = (err_config error)\<lparr>retry := True\<rparr>;
            error1 = error\<lparr>err_config := originalRequest\<rparr>
        in case refreshToken (auth w) of
             None \<Rightarrow> (Inl error1, call_logout w)
           | Some rt \<Rightarrow>
               if rt = [] then (Inl error1, call_logout w)
               else
                 let w1 = w\<lparr>trace := trace w @ [RefreshPosted rt]\<rparr>
                 in (case refresh_endpoint net (trace w) rt of
                       Inl refresh_error \<Rightarrow> (Inl error1, call_logout w1)
                     | Inr body \<Rightarrow>
                         api net
                           (originalRequest
                              \<lparr>authorization := Some (''Bearer '' @ access_token body)\<rparr>)
                           (w1\<lparr>auth :=
                                 refresh_login (access_token body) (refresh_token body) (auth w1)\<rparr>))
      else (Inl error, w))"
  by pat_completeness auto
termination
  apply (relation "measure (\<lambda>x. case x of
            Inl (net, cfg, w) \<Rightarrow> (if retry cfg then 1 else 3)
          | Inr (net, error, w) \<Rightarrow> (if retry (err_config error) then 0 else 2))")
    apply (auto simp: request_interceptor_def split: option.splits)
  done

text \<open>Counting the sends and the refresh calls of a trace.\<close>

fun is_sent :: "event \<Rightarrow> bool" where
  "is_sent (Sent c) = True"
| "is_sent (RefreshPosted t) = False"
| "is_sent LogoutCalled = False"

fun is_refresh :: "event \<Rightarrow> bool" where
  "is_refresh (RefreshPosted t) = True"
| "is_refresh (Sent c) = False"
| "is_refresh LogoutCalled = False"

definition sends :: "event list \<Rightarrow> nat" where
  "sends tr = length (filter is_sent tr)"

definition refreshes :: "event list \<Rightarrow> nat" where
  "refreshes tr = length (filter is_refresh tr)"

subsection \<open>Sample values\<close>

text \<open>The demo login of the login page, a request, and two networks.\<close>

definition demo_user :: User where
  "demo_user =
     \<lparr>id = ''demo-user-id'', email = ''demo@chainsense.ai'', username = ''demo'',
      fullName = ''Demo User'', role = ''admin''\<rparr>"

definition demo_session :: AuthState where
  "demo_session = login (Some demo_user) ''T1'' ''R1'' initial_state"

definition shipments_request :: RequestConfig where
  "shipments_request = \<lparr>url = ''/shipments'', authorization = None, retry = False\<rparr>"

definition refresh_rejection :: AxiosError where
  "refresh_rejection =
     \<lparr>err_config = \<lparr>url = ''/auth/refresh'', authorization = None, retry = False\<rparr>,
      err_status = Some 500\<rparr>"

text \<open>A backend that accepts only the token \<open>T2\<close> and refreshes \<open>R1\<close> to \<open>T2\<close>, \<open>R2\<close>.\<close>

definition rotating_net :: Network where
  "rotating_net =
     \<lparr>transport = (\<lambda>tr c. if authorization c = Some ''Bearer T2'' then Fulfilled 200 ''ok''
                           else Rejected (Some 401)),
      refresh_endpoint = (\<lambda>tr rt. if rt = ''R1''
                                  then Inr \<lparr>access_token = ''T2'', refresh_token = ''R2''\<rparr>
                                  else Inl refresh_rejection)\<rparr>"

text \<open>A backend that answers 401 to everything but still hands out new tokens.\<close>

definition rejecting_net :: Network where
  "rejecting_net =
     \<lparr>transport = (\<lambda>tr c. Rejected (Some 401)),
      refresh_endpoint = (\<lambda>tr rt. Inr \<lparr>access_token = ''T2'', refresh_token = ''R2''\<rparr>)\<rparr>"

text \<open>A backend whose refresh endpoint fails, and one that is down.\<close>

definition expired_net :: Network where
  "expired_net =
     \<lparr>transport = (\<lambda>tr c. Rejected (Some 401)),
      refresh_endpoint = (\<lambda>tr rt. Inl refresh_rejection)\<rparr>"

definition offline_net :: Network where
  "offline_net =
     \<lparr>transport = (\<lambda>tr c. Rejected None),
      refresh_endpoint = (\<lambda>tr rt. Inl refresh_rejection)\<rparr>"

text \<open>An envelope: the record beside a version number.\<close>

definition versioned_envelope :: "(string \<times> js_value) list \<Rightarrow> js_value" where
  "versioned_envelope x = JObject [(''state'', JObject x), (''version'', JNumber 0)]"

section \<open>Properties of the session store\<close>

lemma run_ops_snoc: "run_ops (ops @ [x]) = apply_store_op (run_ops ops) x"
  by (simp add: run_ops_def)

lemma last_session_write_snoc:
  "last_session_write (ops @ [x]) =
     (if is_update x then last_session_write ops else Some x)"
  by (induction ops) (auto split: option.splits)

lemma last_session_write_updates:
  "list_all is_update post \<Longrightarrow> last_session_write post = None"
  by (induction post) auto

lemma last_session_write_split:
  "\<not> is_update x \<Longrightarrow> list_all is_update post \<Longrightarrow>
     last_session_write (pre @ x # post) = Some x"
  by (induction pre) (auto simp: last_session_write_updates)

lemma foldl_updates:
  "list_all is_update post \<Longrightarrow>
     foldl apply_store_op s post =
       s\<lparr>user := map_option (\<lambda>v. foldl spread v (partials post)) (user s)\<rparr>"
proof (induction post arbitrary: s)
  case Nil
  then show ?case by (simp add: option.map_ident)
next
  case (Cons x post)
  then obtain p where x: "x = UpdateUser p" by (cases x) auto
  from Cons show ?case
    by (cases "user s") (simp_all add: x updateUser_def)
qed

lemma run_ops_split:
  "run_ops (pre @ x # post) = foldl apply_store_op (apply_store_op (run_ops pre) x) post"
  by (simp add: run_ops_def)

lemma logout_initial: "logout s = initial_state"
  by (simp add: logout_def initial_state_def)

lemma authenticated_iff_last_write:
  "isAuthenticated (run_ops ops) \<longleftrightarrow>
     (\<exists>x. last_session_write ops = Some x \<and> sets_session x)"
proof (induction ops rule: rev_induct)
  case Nil
  then show ?case by (simp add: run_ops_def initial_state_def)
next
  case (snoc x ops)
  then show ?case
    by (cases x)
       (simp_all add: run_ops_snoc last_session_write_snoc login_def logout_def
          updateUser_def refresh_login_def)
qed

lemma unauthenticated_is_initial:
  "\<not> isAuthenticated (run_ops ops) \<Longrightarrow> run_ops ops = initial_state"
proof (induction ops rule: rev_induct)
  case Nil
  then show ?case by (simp add: run_ops_def)
next
  case (snoc x ops)
  then show ?case
    by (cases x)
       (auto simp: run_ops_snoc login_def logout_initial updateUser_def refresh_login_def
          initial_state_def)
qed

text \<open>
  The history of a run decides the flag and the tokens: \<open>isAuthenticated\<close> is true
  exactly when the last operation that is not a user update was a login or a refresh.
  After a login the session holds its two tokens and its user with the later updates
  merged in; after a refresh it holds the two new tokens and the user the session had
  before, \<open>null\<close> if it had none. Logout yields the empty session from every state,
  and a session that is not authenticated is the empty session.
\<close>

lemma session_history:
  "(isAuthenticated (run_ops ops) \<longleftrightarrow>
      (\<exists>x. last_session_write ops = Some x \<and> sets_session x))
   \<and> (list_all is_update post \<longrightarrow>
        last_session_write (pre @ Login u a r # post) = Some (Login u a r)
        \<and> run_ops (pre @ Login u a r # post) =
            \<lparr>user = Some (foldl spread u (partials post)), accessToken = Some a,
             refreshToken = Some r, isAuthenticated = True\<rparr>
        \<and> last_session_write (pre @ RefreshLogin a r # post) = Some (RefreshLogin a r)
        \<and> run_ops (pre @ RefreshLogin a r # post) =
            \<lparr>user = map_option (\<lambda>v. foldl spread v (partials post)) (user (run_ops pre)),
             accessToken = Some a, refreshToken = Some r, isAuthenticated = True\<rparr>
        \<and> last_session_write (pre @ Logout # post) = Some Logout
        \<and> run_ops (pre @ Logout # post) = initial_state)
   \<and> (\<not> isAuthenticated (run_ops ops) \<longrightarrow> run_ops ops = initial_state)
   \<and> logout s = initial_state"
proof -
  have split: "list_all is_update post \<Longrightarrow>
      run_ops (pre @ Login u a r # post) =
        \<lparr>user = Some (foldl spread u (partials post)), accessToken = Some a,
         refreshToken = Some r, isAuthenticated = True\<rparr>
      \<and> run_ops (pre @ RefreshLogin a r # post) =
        \<lparr>user = map_option (\<lambda>v. foldl spread v (partials post)) (user (run_ops pre)),
         accessToken = Some a, refreshToken = Some r, isAuthenticated = True\<rparr>
      \<and> run_ops (pre @ Logout # post) = initial_state"
    by (simp add: run_ops_split foldl_updates login_def refresh_login_def logout_initial
          initial_state_def)
  show ?thesis
    using authenticated_iff_last_write [of ops] unauthenticated_is_initial [of ops] split
    by (simp add: last_session_write_split logout_initial)
qed

text \<open>
  On guarded runs the flag and the three fields go together: the session is
  authenticated exactly when it holds a user, exactly when it holds an access token, and
  exactly when it holds a refresh token.
\<close>

lemma guarded_op:
  assumes "session_consistent s" and "refresh_guarded s (x # ops)"
  shows "session_consistent (apply_store_op s x) \<and> refresh_guarded (apply_store_op s x) ops"
proof (cases x)
  case (Login u a r)
  with assms show ?thesis
    by (simp add: session_consistent_def login_def)
next
  case Logout
  with assms show ?thesis
    by (simp add: session_consistent_def logout_def)
next
  case (UpdateUser p)
  with assms show ?thesis
    by (cases "user s") (auto simp: session_consistent_def updateUser_def)
next
  case (RefreshLogin a r)
  with assms show ?thesis
    by (auto simp: session_consistent_def refresh_login_def login_def)
qed

lemma guarded_step:
  "session_consistent s \<Longrightarrow> refresh_guarded s ops \<Longrightarrow>
     session_consistent (foldl apply_store_op s ops)"
proof (induction ops arbitrary: s)
  case Nil
  then show ?case by simp
next
  case (Cons x ops)
  from guarded_op [OF Cons.prems] Cons.IH [of "apply_store_op s x"]
  show ?case by simp
qed

lemma guarded_session_invariant:
  "refresh_guarded initial_state ops \<Longrightarrow>
     (isAuthenticated (run_ops ops) \<longleftrightarrow>
        user (run_ops ops) \<noteq> None \<and> accessToken (run_ops ops) \<noteq> None
        \<and> refreshToken (run_ops ops) \<noteq> None)"
  using guarded_step [of initial_state ops]
  by (auto simp: run_ops_def initial_state_def session_consistent_def)

text \<open>
  C1. The invariant of the claim (authenticated if and only if user, access token and
  refresh token are all set) does not hold of every run of the four operations. After a
  login and a logout, the interceptor's refresh login (the answer of a refresh that was
  posted before the logout) calls \<open>login\<close> with the \<open>null\<close> user of the cleared
  session: the session is then authenticated, holds both new tokens, and has no user.
  The run is not guarded. Logout itself clears all four fields in one step.
\<close>

theorem refresh_after_logout_has_no_user:
  "run_ops [Login demo_user ''T1'' ''R1'', Logout, RefreshLogin ''T2'' ''R2''] =
     \<lparr>user = None, accessToken = Some ''T2'', refreshToken = Some ''R2'',
      isAuthenticated = True\<rparr>
   \<and> \<not> refresh_guarded initial_state
         [Login demo_user ''T1'' ''R1'', Logout, RefreshLogin ''T2'' ''R2'']
   \<and> run_ops [Login demo_user ''T1'' ''R1'', Logout] = initial_state"
  by (simp add: run_ops_def login_def logout_def refresh_login_def initial_state_def)

text \<open>
  C7. \<open>updateUser\<close> on a session without a user returns the state as it was. On a session
  with a user it writes only \<open>user\<close>: each key that the argument has takes the
  argument's value, each key it lacks keeps its value, and the two tokens and
  \<open>isAuthenticated\<close> keep theirs.
\<close>

theorem updateUser_frame:
  "(user s = None \<longrightarrow> updateUser p s = s)
   \<and> (user s = Some u \<longrightarrow>
        updateUser p s = s\<lparr>user := Some (spread u p)\<rparr>
        \<and> id (spread u p) = (case p_id p of None \<Rightarrow> id u | Some v \<Rightarrow> v)
        \<and> email (spread u p) = (case p_email p of None \<Rightarrow> email u | Some v \<Rightarrow> v)
        \<and> username (spread u p) = (case p_username p of None \<Rightarrow> username u | Some v \<Rightarrow> v)
        \<and> fullName (spread u p) = (case p_fullName p of None \<Rightarrow> fullName u | Some v \<Rightarrow> v)
        \<and> role (spread u p) = (case p_role p of None \<Rightarrow> role u | Some v \<Rightarrow> v))
   \<and> accessToken (updateUser p s) = accessToken s
   \<and> refreshToken (updateUser p s) = refreshToken s
   \<and> isAuthenticated (updateUser p s) = isAuthenticated s"
  by (auto simp: updateUser_def spread_def split: option.splits)

theorem updateUser_frame_witness:
  "user initial_state = None
   \<and> updateUser \<lparr>p_id = None, p_email = None, p_username = None,
        p_fullName = Some ''Operations'', p_role = None\<rparr> initial_state = initial_state
   \<and> user demo_session = Some demo_user
   \<and> updateUser \<lparr>p_id = None, p_email = None, p_username = None,
        p_fullName = Some ''Operations'', p_role = None\<rparr> demo_session =
       demo_session\<lparr>user := Some (demo_user\<lparr>fullName := ''Operations''\<rparr>)\<rparr>"
  using updateUser_frame
    [of initial_state "\<lparr>p_id = None, p_email = None, p_username = None,
        p_fullName = Some ''Operations'', p_role = None\<rparr>" demo_user]
    updateUser_frame
    [of demo_session "\<lparr>p_id = None, p_email = None, p_username = None,
        p_fullName = Some ''Operations'', p_role = None\<rparr>" demo_user]
  by (simp add: demo_session_def login_def updateUser_def initial_state_def spread_def
        demo_user_def)

text \<open>
  C9. For every session state, the record that \<open>partialize\<close> makes for the persistence
  layer has exactly the keys \<open>user\<close>, \<open>accessToken\<close>, \<open>refreshToken\<close> and
  \<open>isAuthenticated\<close>, with the values they have in the store; the members \<open>login\<close>,
  \<open>logout\<close> and \<open>updateUser\<close> of the store are not in it. That record, in the
  middleware's envelope, is what is stored under the key \<open>chainsense-auth\<close>, and no
  other key of the storage is written. No other member of the store reaches durable
  storage: from any store object \<open>partialize\<close> takes those four keys only, and two store
  objects that agree on the four fields and differ in anything else are stored alike.
\<close>

theorem partialize_four_fields:
  "map fst (partialize (store_object s)) =
     [''user'', ''accessToken'', ''refreshToken'', ''isAuthenticated'']
   \<and> map snd (partialize (store_object s)) =
     [js_user (user s), js_string_or_null (accessToken s),
      js_string_or_null (refreshToken s), JBoolean (isAuthenticated s)]
   \<and> map_of (partialize (store_object s)) ''login'' = None
   \<and> map_of (partialize (store_object s)) ''logout'' = None
   \<and> map_of (partialize (store_object s)) ''updateUser'' = None
   \<and> map_of (store_object s) ''login'' = Some (JFunction ''login'')
   \<and> map fst (partialize obj) =
     [''user'', ''accessToken'', ''refreshToken'', ''isAuthenticated'']
   \<and> persist_write envelope (store_object s) storage ''chainsense-auth'' =
       Some (envelope
         [(''user'', js_user (user s)),
          (''accessToken'', js_string_or_null (accessToken s)),
          (''refreshToken'', js_string_or_null (refreshToken s)),
          (''isAuthenticated'', JBoolean (isAuthenticated s))])
   \<and> (k \<noteq> ''chainsense-auth'' \<longrightarrow>
        persist_write envelope (store_object s) storage k = storage k)
   \<and> (member obj ''user'' = member obj' ''user''
        \<and> member obj ''accessToken'' = member obj' ''accessToken''
        \<and> member obj ''refreshToken'' = member obj' ''refreshToken''
        \<and> member obj ''isAuthenticated'' = member obj' ''isAuthenticated''
      \<longrightarrow> persist_write envelope obj storage = persist_write envelope obj' storage)"
  by (simp add: partialize_def store_object_def member_def persist_write_def persist_name_def)

theorem partialize_four_fields_witness:
  "persist_write versioned_envelope
       (store_object demo_session @ [(''lastError'', JString ''timeout'')]) Map.empty =
     persist_write versioned_envelope (store_object demo_session) Map.empty
   \<and> persist_write versioned_envelope (store_object demo_session) Map.empty
       ''chainsense-auth'' =
     Some (JObject
       [(''state'', JObject
           [(''user'', js_user (Some demo_user)),
            (''accessToken'', JString ''T1''),
            (''refreshToken'', JString ''R1''),
            (''isAuthenticated'', JBoolean True)]),
        (''version'', JNumber 0)])
   \<and> persist_write versioned_envelope (store_object demo_session) Map.empty ''theme'' = None"
  using partialize_four_fields
    [of demo_session "store_object demo_session @ [(''lastError'', JString ''timeout'')]"
        versioned_envelope Map.empty "''theme''" "store_object demo_session"]
  by (simp add: store_object_def member_def versioned_envelope_def demo_session_def
        login_def js_string_or_null_def)

section \<open>Properties of the HTTP client\<close>

declare api.simps [simp del] on_response_error.simps [simp del]

lemma request_interceptor_retry [simp]:
  "retry (request_interceptor s cfg) = retry cfg"
  by (simp add: request_interceptor_def split: option.splits)

lemma request_interceptor_url [simp]:
  "url (request_interceptor s cfg) = url cfg"
  by (simp add: request_interceptor_def split: option.splits)

lemma request_interceptor_after_refresh:
  "authorization cfg = Some (''Bearer '' @ a) \<Longrightarrow>
     request_interceptor (refresh_login a r s) cfg = cfg"
  by (cases cfg) (simp add: request_interceptor_def refresh_login_def login_def)

lemma retried_config:
  "(request_interceptor s cfg)\<lparr>retry := True, authorization := x\<rparr> =
     cfg\<lparr>authorization := x, retry := True\<rparr>"
  by (simp add: request_interceptor_def split: option.splits)

lemma on_response_error_pass:
  "err_status error \<noteq> Some 401 \<or> retry (err_config error) \<Longrightarrow>
     on_response_error net error w = (Inl error, w)"
  by (auto simp: on_response_error.simps)

lemma on_response_error_no_token:
  "err_status error = Some 401 \<Longrightarrow> \<not> retry (err_config error) \<Longrightarrow>
   refreshToken (auth w) = None \<or> refreshToken (auth w) = Some [] \<Longrightarrow>
     on_response_error net error w =
       (Inl (error\<lparr>err_config := (err_config error)\<lparr>retry := True\<rparr>\<rparr>), call_logout w)"
  by (auto simp: on_response_error.simps Let_def)

lemma on_response_error_refresh_failed:
  "err_status error = Some 401 \<Longrightarrow> \<not> retry (err_config error) \<Longrightarrow>
   refreshToken (auth w) = Some rt \<Longrightarrow> rt \<noteq> [] \<Longrightarrow>
   refresh_endpoint net (trace w) rt = Inl refresh_error \<Longrightarrow>
     on_response_error net error w =
       (Inl (error\<lparr>err_config := (err_config error)\<lparr>retry := True\<rparr>\<rparr>),
        call_logout (w\<lparr>trace := trace w @ [RefreshPosted rt]\<rparr>))"
  by (simp add: on_response_error.simps Let_def)

lemma on_response_error_refreshed:
  "err_status error = Some 401 \<Longrightarrow> \<not> retry (err_config error) \<Longrightarrow>
   refreshToken (auth w) = Some rt \<Longrightarrow> rt \<noteq> [] \<Longrightarrow>
   refresh_endpoint net (trace w) rt = Inr body \<Longrightarrow>
     on_response_error net error w =
       api net
         ((err_config error)\<lparr>retry := True,
            authorization := Some (''Bearer '' @ access_token body)\<rparr>)
         (w\<lparr>trace := trace w @ [RefreshPosted rt],
            auth := refresh_login (access_token body) (refresh_token body) (auth w)\<rparr>)"
  by (simp add: on_response_error.simps Let_def)

lemma api_fulfilled:
  "transport net (trace w) (request_interceptor (auth w) cfg) = Fulfilled st body \<Longrightarrow>
     api net cfg w =
       (Inr \<lparr>status = st, data = body, config = request_interceptor (auth w) cfg\<rparr>,
        w\<lparr>trace := trace w @ [Sent (request_interceptor (auth w) cfg)]\<rparr>)"
  by (simp add: api.simps Let_def)

lemma api_rejected:
  "transport net (trace w) (request_interceptor (auth w) cfg) = Rejected st \<Longrightarrow>
     api net cfg w =
       on_response_error net
         \<lparr>err_config = request_interceptor (auth w) cfg, err_status = st\<rparr>
         (w\<lparr>trace := trace w @ [Sent (request_interceptor (auth w) cfg)]\<rparr>)"
  by (simp add: api.simps Let_def)

lemma api_retried:
  "retry cfg \<Longrightarrow>
     api net cfg w =
       (case transport net (trace w) (request_interceptor (auth w) cfg) of
          Fulfilled st body \<Rightarrow>
            (Inr \<lparr>status = st, data = body, config = request_interceptor (auth w) cfg\<rparr>,
             w\<lparr>trace := trace w @ [Sent (request_interceptor (auth w) cfg)]\<rparr>)
        | Rejected st \<Rightarrow>
            (Inl \<lparr>err_config = request_interceptor (auth w) cfg, err_status = st\<rparr>,
             w\<lparr>trace := trace w @ [Sent (request_interceptor (auth w) cfg)]\<rparr>))"
  by (cases "transport net (trace w) (request_interceptor (auth w) cfg)")
     (simp_all add: api_fulfilled api_rejected on_response_error_pass)

lemma api_retried_counts:
  "retry cfg \<Longrightarrow>
     sends (trace (snd (api net cfg w))) = sends (trace w) + 1
     \<and> refreshes (trace (snd (api net cfg w))) = refreshes (trace w)"
  by (simp add: api_retried sends_def refreshes_def split: transport_outcome.splits)

lemma on_response_error_counts:
  "sends (trace (snd (on_response_error net error w))) \<le> sends (trace w) + 1
   \<and> refreshes (trace (snd (on_response_error net error w))) \<le> refreshes (trace w) + 1"
proof (cases "err_status error = Some 401 \<and> \<not> retry (err_config error)")
  case False
  then show ?thesis by (auto simp: on_response_error_pass)
next
  case True
  show ?thesis
  proof (cases "refreshToken (auth w) = None \<or> refreshToken (auth w) = Some []")
    case True
    with \<open>err_status error = Some 401 \<and> \<not> retry (err_config error)\<close> show ?thesis
      by (simp add: on_response_error_no_token call_logout_def sends_def refreshes_def)
  next
    case False
    then obtain rt where rt: "refreshToken (auth w) = Some rt" "rt \<noteq> []" by auto
    show ?thesis
    proof (cases "refresh_endpoint net (trace w) rt")
      case (Inl refresh_error)
      with True rt show ?thesis
        by (simp add: on_response_error_refresh_failed call_logout_def sends_def
              refreshes_def)
    next
      case (Inr body)
      with True rt show ?thesis
        by (simp add: on_response_error_refreshed api_retried_counts)
           (simp add: sends_def refreshes_def)
    qed
  qed
qed

lemma api_counts:
  "sends (trace (snd (api net cfg w))) \<le> sends (trace w) + 2
   \<and> refreshes (trace (snd (api net cfg w))) \<le> refreshes (trace w) + 1"
proof (cases "transport net (trace w) (request_interceptor (auth w) cfg)")
  case (Fulfilled st body)
  then show ?thesis by (simp add: api_fulfilled sends_def refreshes_def)
next
  case (Rejected st)
  let ?w1 = "w\<lparr>trace := trace w @ [Sent (request_interceptor (auth w) cfg)]\<rparr>"
  let ?e = "\<lparr>err_config = request_interceptor (auth w) cfg, err_status = st\<rparr>"
  have "sends (trace ?w1) = sends (trace w) + 1" "refreshes (trace ?w1) = refreshes (trace w)"
    by (simp_all add: sends_def refreshes_def)
  with on_response_error_counts [of net ?e ?w1] Rejected show ?thesis
    by (simp add: api_rejected)
qed

lemma api_first_send:
  "\<exists>rest. trace (snd (api net cfg w)) =
     trace w @ Sent (request_interceptor (auth w) cfg) # rest"
proof (cases "transport net (trace w) (request_interceptor (auth w) cfg)")
  case (Fulfilled st body)
  then show ?thesis by (simp add: api_fulfilled)
next
  case (Rejected st)
  let ?sent = "request_interceptor (auth w) cfg"
  let ?w1 = "w\<lparr>trace := trace w @ [Sent ?sent]\<rparr>"
  let ?e = "\<lparr>err_config = ?sent, err_status = st\<rparr>"
  have "\<exists>rest. trace (snd (on_response_error net ?e ?w1)) = trace ?w1 @ rest"
  proof (cases "err_status ?e = Some 401 \<and> \<not> retry (err_config ?e)")
    case False
    then have "on_response_error net ?e ?w1 = (Inl ?e, ?w1)"
      by (intro on_response_error_pass) auto
    then show ?thesis by simp
  next
    case True
    show ?thesis
    proof (cases "refreshToken (auth ?w1) = None \<or> refreshToken (auth ?w1) = Some []")
      case True
      with \<open>err_status ?e = Some 401 \<and> \<not> retry (err_config ?e)\<close>
      have "on_response_error net ?e ?w1 =
              (Inl (?e\<lparr>err_config := (err_config ?e)\<lparr>retry := True\<rparr>\<rparr>), call_logout ?w1)"
        by (intro on_response_error_no_token) auto
      then show ?thesis by (simp add: call_logout_def)
    next
      case False
      then obtain rt where rt: "refreshToken (auth ?w1) = Some rt" "rt \<noteq> []" by auto
      show ?thesis
      proof (cases "refresh_endpoint net (trace ?w1) rt")
        case (Inl refresh_error)
        from True rt Inl show ?thesis
          by (simp add: on_response_error_refresh_failed call_logout_def)
      next
        case (Inr body)
        from True rt Inr show ?thesis
          by (simp add: on_response_error_refreshed api_retried
                split: transport_outcome.splits)
      qed
    qed
  qed
  with Rejected show ?thesis by (simp add: api_rejected)
qed

lemma api_refreshed:
  assumes "\<not> retry cfg"
    and "transport net (trace w) (request_interceptor (auth w) cfg) = Rejected (Some 401)"
    and "refreshToken (auth w) = Some rt" and "rt \<noteq> []"
    and "refresh_endpoint net (trace w @ [Sent (request_interceptor (auth w) cfg)]) rt
           = Inr body"
  shows "api net cfg w =
    (case transport net
            (trace w @ [Sent (request_interceptor (auth w) cfg), RefreshPosted rt])
            (cfg\<lparr>authorization := Some (''Bearer '' @ access_token body), retry := True\<rparr>) of
       Fulfilled st b \<Rightarrow>
         Inr \<lparr>status = st, data = b,
              config = cfg\<lparr>authorization := Some (''Bearer '' @ access_token body),
                           retry := True\<rparr>\<rparr>
     | Rejected st \<Rightarrow>
         Inl \<lparr>err_config = cfg\<lparr>authorization := Some (''Bearer '' @ access_token body),
                                retry := True\<rparr>,
              err_status = st\<rparr>,
     \<lparr>auth = refresh_login (access_token body) (refresh_token body) (auth w),
      trace = trace w @
        [Sent (request_interceptor (auth w) cfg), RefreshPosted rt,
         Sent (cfg\<lparr>authorization := Some (''Bearer '' @ access_token body),
                  retry := True\<rparr>)]\<rparr>)"
proof -
  let ?sent = "request_interceptor (auth w) cfg"
  let ?second = "cfg\<lparr>authorization := Some (''Bearer '' @ access_token body), retry := True\<rparr>"
  let ?w1 = "w\<lparr>trace := trace w @ [Sent ?sent]\<rparr>"
  let ?w2 = "?w1\<lparr>trace := trace ?w1 @ [RefreshPosted rt],
                 auth := refresh_login (access_token body) (refresh_token body) (auth ?w1)\<rparr>"
  let ?e = "\<lparr>err_config = ?sent, err_status = Some 401\<rparr>"
  have s1: "api net cfg w = on_response_error net ?e ?w1"
    using assms(2) by (rule api_rejected)
  have s2: "on_response_error net ?e ?w1 = api net ?second ?w2"
    using on_response_error_refreshed [of ?e ?w1 rt net body] assms
    by (simp add: retried_config)
  have sec: "request_interceptor (auth ?w2) ?second = ?second"
    by (simp add: request_interceptor_after_refresh)
  have tr: "trace ?w2 = trace w @ [Sent ?sent, RefreshPosted rt]"
    by simp
  have s3: "api net ?second ?w2 =
      (case transport net (trace w @ [Sent ?sent, RefreshPosted rt]) ?second of
         Fulfilled st b \<Rightarrow>
           (Inr \<lparr>status = st, data = b, config = ?second\<rparr>,
            ?w2\<lparr>trace := trace ?w2 @ [Sent ?second]\<rparr>)
       | Rejected st \<Rightarrow>
           (Inl \<lparr>err_config = ?second, err_status = st\<rparr>,
            ?w2\<lparr>trace := trace ?w2 @ [Sent ?second]\<rparr>))"
    using api_retried [of ?second net ?w2]
    unfolding sec tr by simp
  show ?thesis
    unfolding s1 s2 s3 by (simp split: transport_outcome.splits)
qed

text \<open>
  C2. Whatever the network answers, one call of \<open>api\<close> sends the request at most twice
  and posts to the refresh endpoint at most once. When the first attempt of a request
  not yet retried is answered 401, the refresh succeeds and the retry is answered 401
  again, the events are exactly: first send, one refresh post, second send; and the
  caller receives the error of the second send, with status 401.
\<close>

theorem retry_at_most_once:
  "sends (trace (snd (api net cfg w))) \<le> sends (trace w) + 2
   \<and> refreshes (trace (snd (api net cfg w))) \<le> refreshes (trace w) + 1
   \<and> (\<not> retry cfg
        \<and> transport net (trace w) (request_interceptor (auth w) cfg) = Rejected (Some 401)
        \<and> refreshToken (auth w) = Some rt \<and> rt \<noteq> []
        \<and> refresh_endpoint net (trace w @ [Sent (request_interceptor (auth w) cfg)]) rt
            = Inr body
        \<and> transport net
             (trace w @ [Sent (request_interceptor (auth w) cfg), RefreshPosted rt])
             (cfg\<lparr>authorization := Some (''Bearer '' @ access_token body), retry := True\<rparr>)
            = Rejected (Some 401)
      \<longrightarrow> api net cfg w =
            (Inl \<lparr>err_config =
                    cfg\<lparr>authorization := Some (''Bearer '' @ access_token body),
                        retry := True\<rparr>,
                  err_status = Some 401\<rparr>,
             \<lparr>auth = refresh_login (access_token body) (refresh_token body) (auth w),
              trace = trace w @
                [Sent (request_interceptor (auth w) cfg), RefreshPosted rt,
                 Sent (cfg\<lparr>authorization := Some (''Bearer '' @ access_token body),
                          retry := True\<rparr>)]\<rparr>))"
  using api_counts [of net cfg w] api_refreshed [of cfg net w rt body]
  by simp

theorem retry_at_most_once_witness:
  "api rejecting_net shipments_request \<lparr>auth = demo_session, trace = []\<rparr> =
     (Inl \<lparr>err_config = \<lparr>url = ''/shipments'', authorization = Some ''Bearer T2'',
                          retry = True\<rparr>,
           err_status = Some 401\<rparr>,
      \<lparr>auth = \<lparr>user = Some demo_user, accessToken = Some ''T2'',
               refreshToken = Some ''R2'', isAuthenticated = True\<rparr>,
       trace = [Sent \<lparr>url = ''/shipments'', authorization = Some ''Bearer T1'',
                      retry = False\<rparr>,
                RefreshPosted ''R1'',
                Sent \<lparr>url = ''/shipments'', authorization = Some ''Bearer T2'',
                      retry = True\<rparr>]\<rparr>)"
  using retry_at_most_once
    [of rejecting_net shipments_request "\<lparr>auth = demo_session, trace = []\<rparr>" "''R1''"
        "\<lparr>access_token = ''T2'', refresh_token = ''R2''\<rparr>"]
  by (simp add: rejecting_net_def shipments_request_def demo_session_def login_def
        refresh_login_def initial_state_def request_interceptor_def)

text \<open>
  C3. A session holds a refresh token \<open>r1\<close> (and any access token, \<open>T1\<close> in the
  scenario); a request not yet retried is answered 401; the refresh endpoint returns
  \<open>t2\<close> and \<open>r2\<close>. Then the session afterwards holds access token \<open>t2\<close> and refresh
  token \<open>r2\<close> with the user it had; the request is sent a second time with the header
  \<open>Bearer t2\<close>; and the caller receives what that second send produced, its response
  or its error.
\<close>

theorem refresh_then_retry:
  assumes "\<not> retry cfg"
    and "transport net (trace w) (request_interceptor (auth w) cfg) = Rejected (Some 401)"
    and "refreshToken (auth w) = Some r1" and "r1 \<noteq> []"
    and "refresh_endpoint net (trace w @ [Sent (request_interceptor (auth w) cfg)]) r1
           = Inr \<lparr>access_token = t2, refresh_token = r2\<rparr>"
  shows "auth (snd (api net cfg w)) =
           (auth w)\<lparr>accessToken := Some t2, refreshToken := Some r2, isAuthenticated := True\<rparr>
    \<and> user (auth (snd (api net cfg w))) = user (auth w)
    \<and> trace (snd (api net cfg w)) =
         trace w @ [Sent (request_interceptor (auth w) cfg), RefreshPosted r1,
                    Sent (cfg\<lparr>authorization := Some (''Bearer '' @ t2), retry := True\<rparr>)]
    \<and> fst (api net cfg w) =
         (case transport net
                 (trace w @ [Sent (request_interceptor (auth w) cfg), RefreshPosted r1])
                 (cfg\<lparr>authorization := Some (''Bearer '' @ t2), retry := True\<rparr>) of
            Fulfilled st b \<Rightarrow>
              Inr \<lparr>status = st, data = b,
                   config = cfg\<lparr>authorization := Some (''Bearer '' @ t2), retry := True\<rparr>\<rparr>
          | Rejected st \<Rightarrow>
              Inl \<lparr>err_config = cfg\<lparr>authorization := Some (''Bearer '' @ t2), retry := True\<rparr>,
                   err_status = st\<rparr>)"
proof (cases "transport net
                 (trace w @ [Sent (request_interceptor (auth w) cfg), RefreshPosted r1])
                 (cfg\<lparr>authorization := Some (''Bearer '' @ t2), retry := True\<rparr>)")
  case (Fulfilled st b)
  with api_refreshed [OF assms] show ?thesis
    by (simp add: refresh_login_def login_def)
next
  case (Rejected st)
  with api_refreshed [OF assms] show ?thesis
    by (simp add: refresh_login_def login_def)
qed

theorem refresh_then_retry_witness:
  "api rotating_net shipments_request \<lparr>auth = demo_session, trace = []\<rparr> =
     (Inr \<lparr>status = 200, data = ''ok'',
           config = \<lparr>url = ''/shipments'', authorization = Some ''Bearer T2'',
                     retry = True\<rparr>\<rparr>,
      \<lparr>auth = \<lparr>user = Some demo_user, accessToken = Some ''T2'',
               refreshToken = Some ''R2'', isAuthenticated = True\<rparr>,
       trace = [Sent \<lparr>url = ''/shipments'', authorization = Some ''Bearer T1'',
                      retry = False\<rparr>,
                RefreshPosted ''R1'',
                Sent \<lparr>url = ''/shipments'', authorization = Some ''Bearer T2'',
                      retry = True\<rparr>]\<rparr>)"
proof -
  let ?w = "\<lparr>auth = demo_session, trace = []\<rparr>"
  have h1: "\<not> retry shipments_request"
    by (simp add: shipments_request_def)
  have h2: "transport rotating_net (trace ?w) (request_interceptor (auth ?w) shipments_request)
      = Rejected (Some 401)"
    by (simp add: rotating_net_def shipments_request_def demo_session_def login_def
          request_interceptor_def)
  have h3: "refreshToken (auth ?w) = Some ''R1''"
    by (simp add: demo_session_def login_def)
  have h4: "''R1'' \<noteq> []"
    by simp
  have h5: "refresh_endpoint rotating_net
      (trace ?w @ [Sent (request_interceptor (auth ?w) shipments_request)]) ''R1''
      = Inr \<lparr>access_token = ''T2'', refresh_token = ''R2''\<rparr>"
    by (simp add: rotating_net_def)
  show ?thesis
    using refresh_then_retry [OF h1 h2 h3 h4 h5]
    by (simp add: prod_eq_iff rotating_net_def shipments_request_def demo_session_def
          login_def initial_state_def request_interceptor_def)
qed

text \<open>
  C4. A request not yet retried is answered 401, the session holds a refresh token, and
  the call to the refresh endpoint fails, with whatever error. Then the refresh endpoint
  was called once, \<open>logout\<close> is called and leaves the empty session, and the caller
  receives the error of the original request (status 401, the config that was sent, now
  carrying the retry marker), which does not depend on the error of the refresh call.
\<close>

theorem refresh_failure_logs_out:
  "(err_status error = Some 401 \<and> \<not> retry (err_config error)
      \<and> refreshToken (auth w) = Some rt \<and> rt \<noteq> []
      \<and> refresh_endpoint net (trace w) rt = Inl refresh_error
    \<longrightarrow> on_response_error net error w =
          (Inl (error\<lparr>err_config := (err_config error)\<lparr>retry := True\<rparr>\<rparr>),
           \<lparr>auth = initial_state, trace = trace w @ [RefreshPosted rt, LogoutCalled]\<rparr>))
   \<and> (\<not> retry cfg
      \<and> transport net (trace w) (request_interceptor (auth w) cfg) = Rejected (Some 401)
      \<and> refreshToken (auth w) = Some rt \<and> rt \<noteq> []
      \<and> refresh_endpoint net (trace w @ [Sent (request_interceptor (auth w) cfg)]) rt
          = Inl refresh_error
    \<longrightarrow> api net cfg w =
          (Inl \<lparr>err_config = (request_interceptor (auth w) cfg)\<lparr>retry := True\<rparr>,
                err_status = Some 401\<rparr>,
           \<lparr>auth = initial_state,
            trace = trace w @ [Sent (request_interceptor (auth w) cfg), RefreshPosted rt,
                               LogoutCalled]\<rparr>))"
proof -
  have handler: "on_response_error net e v =
          (Inl (e\<lparr>err_config := (err_config e)\<lparr>retry := True\<rparr>\<rparr>),
           \<lparr>auth = initial_state, trace = trace v @ [RefreshPosted rt, LogoutCalled]\<rparr>)"
    if "err_status e = Some 401" "\<not> retry (err_config e)" "refreshToken (auth v) = Some rt"
      "rt \<noteq> []" "refresh_endpoint net (trace v) rt = Inl refresh_error"
    for e :: AxiosError and v :: World
    using that by (simp add: on_response_error_refresh_failed call_logout_def logout_initial)
  let ?sent = "request_interceptor (auth w) cfg"
  have "api net cfg w =
          (Inl \<lparr>err_config = ?sent\<lparr>retry := True\<rparr>, err_status = Some 401\<rparr>,
           \<lparr>auth = initial_state,
            trace = trace w @ [Sent ?sent, RefreshPosted rt, LogoutCalled]\<rparr>)"
    if "\<not> retry cfg" "transport net (trace w) ?sent = Rejected (Some 401)"
      "refreshToken (auth w) = Some rt" "rt \<noteq> []"
      "refresh_endpoint net (trace w @ [Sent ?sent]) rt = Inl refresh_error"
    using that
      handler [of "\<lparr>err_config = ?sent, err_status = Some 401\<rparr>"
                  "w\<lparr>trace := trace w @ [Sent ?sent]\<rparr>"]
    by (simp add: api_rejected)
  with handler [of error w] show ?thesis by blast
qed

theorem refresh_failure_logs_out_witness:
  "refresh_endpoint expired_net
      [Sent \<lparr>url = ''/shipments'', authorization = Some ''Bearer T1'', retry = False\<rparr>] ''R1''
     = Inl refresh_rejection
   \<and> api expired_net shipments_request \<lparr>auth = demo_session, trace = []\<rparr> =
     (Inl \<lparr>err_config = \<lparr>url = ''/shipments'', authorization = Some ''Bearer T1'',
                          retry = True\<rparr>,
           err_status = Some 401\<rparr>,
      \<lparr>auth = initial_state,
       trace = [Sent \<lparr>url = ''/shipments'', authorization = Some ''Bearer T1'',
                      retry = False\<rparr>,
                RefreshPosted ''R1'', LogoutCalled]\<rparr>)"
  using refresh_failure_logs_out
    [of "\<lparr>err_config = shipments_request, err_status = Some 401\<rparr>"
        "\<lparr>auth = demo_session, trace = []\<rparr>" "''R1''" expired_net refresh_rejection
        shipments_request]
  by (simp add: expired_net_def shipments_request_def demo_session_def login_def
        request_interceptor_def)

text \<open>
  C5. A request not yet retried is answered 401 while the session holds no refresh
  token. Then nothing is posted to the refresh endpoint, \<open>logout\<close> is called and leaves
  the empty session, and the caller receives the error of the original request (status
  401, the config that was sent, now carrying the retry marker).
\<close>

theorem no_refresh_token_logs_out:
  "(err_status error = Some 401 \<and> \<not> retry (err_config error)
      \<and> refreshToken (auth w) = None
    \<longrightarrow> on_response_error net error w =
          (Inl (error\<lparr>err_config := (err_config error)\<lparr>retry := True\<rparr>\<rparr>),
           \<lparr>auth = initial_state, trace = trace w @ [LogoutCalled]\<rparr>))
   \<and> (\<not> retry cfg
      \<and> transport net (trace w) (request_interceptor (auth w) cfg) = Rejected (Some 401)
      \<and> refreshToken (auth w) = None
    \<longrightarrow> api net cfg w =
          (Inl \<lparr>err_config = (request_interceptor (auth w) cfg)\<lparr>retry := True\<rparr>,
                err_status = Some 401\<rparr>,
           \<lparr>auth = initial_state,
            trace = trace w @ [Sent (request_interceptor (auth w) cfg), LogoutCalled]\<rparr>)
        \<and> refreshes (trace (snd (api net cfg w))) = refreshes (trace w))"
proof -
  have handler: "on_response_error net e v =
          (Inl (e\<lparr>err_config := (err_config e)\<lparr>retry := True\<rparr>\<rparr>),
           \<lparr>auth = initial_state, trace = trace v @ [LogoutCalled]\<rparr>)"
    if "err_status e = Some 401" "\<not> retry (err_config e)" "refreshToken (auth v) = None"
    for e :: AxiosError and v :: World
    using that by (simp add: on_response_error_no_token call_logout_def logout_initial)
  let ?sent = "request_interceptor (auth w) cfg"
  have "api net cfg w =
          (Inl \<lparr>err_config = ?sent\<lparr>retry := True\<rparr>, err_status = Some 401\<rparr>,
           \<lparr>auth = initial_state, trace = trace w @ [Sent ?sent, LogoutCalled]\<rparr>)
        \<and> refreshes (trace (snd (api net cfg w))) = refreshes (trace w)"
    if "\<not> retry cfg" "transport net (trace w) ?sent = Rejected (Some 401)"
      "refreshToken (auth w) = None"
    using that
      handler [of "\<lparr>err_config = ?sent, err_status = Some 401\<rparr>"
                  "w\<lparr>trace := trace w @ [Sent ?sent]\<rparr>"]
    by (simp add: api_rejected refreshes_def)
  with handler [of error w] show ?thesis by blast
qed

theorem no_refresh_token_logs_out_witness:
  "refreshToken initial_state = None
   \<and> api rejecting_net shipments_request \<lparr>auth = initial_state, trace = []\<rparr> =
     (Inl \<lparr>err_config = \<lparr>url = ''/shipments'', authorization = None, retry = True\<rparr>,
           err_status = Some 401\<rparr>,
      \<lparr>auth = initial_state,
       trace = [Sent \<lparr>url = ''/shipments'', authorization = None, retry = False\<rparr>,
                LogoutCalled]\<rparr>)"
  using no_refresh_token_logs_out
    [of "\<lparr>err_config = shipments_request, err_status = Some 401\<rparr>"
        "\<lparr>auth = initial_state, trace = []\<rparr>" rejecting_net shipments_request]
  by (simp add: rejecting_net_def shipments_request_def initial_state_def
        request_interceptor_def)

text \<open>
  C8. An error whose response status is not 401, or that has no response at all, passes
  the rejection handler of the response interceptor as it is: the caller receives the
  same error, and the session and the trace (no send, no refresh call, no logout) are
  as before. So a request rejected with such a status is sent once and its error is the
  result of \<open>api\<close>.
\<close>

theorem other_errors_pass_through:
  "(err_status error \<noteq> Some 401 \<longrightarrow> on_response_error net error w = (Inl error, w))
   \<and> (transport net (trace w) (request_interceptor (auth w) cfg) = Rejected st
      \<and> st \<noteq> Some 401
    \<longrightarrow> api net cfg w =
          (Inl \<lparr>err_config = request_interceptor (auth w) cfg, err_status = st\<rparr>,
           \<lparr>auth = auth w,
            trace = trace w @ [Sent (request_interceptor (auth w) cfg)]\<rparr>))"
  by (simp add: api_rejected on_response_error_pass)

theorem other_errors_pass_through_witness:
  "api offline_net shipments_request \<lparr>auth = demo_session, trace = []\<rparr> =
     (Inl \<lparr>err_config = \<lparr>url = ''/shipments'', authorization = Some ''Bearer T1'',
                          retry = False\<rparr>,
           err_status = None\<rparr>,
      \<lparr>auth = demo_session,
       trace = [Sent \<lparr>url = ''/shipments'', authorization = Some ''Bearer T1'',
                      retry = False\<rparr>]\<rparr>)
   \<and> on_response_error offline_net
       \<lparr>err_config = shipments_request, err_status = Some 500\<rparr>
       \<lparr>auth = demo_session, trace = []\<rparr> =
     (Inl \<lparr>err_config = shipments_request, err_status = Some 500\<rparr>,
      \<lparr>auth = demo_session, trace = []\<rparr>)"
  using other_errors_pass_through
    [of "\<lparr>err_config = shipments_request, err_status = Some 500\<rparr>" offline_net
        "\<lparr>auth = demo_session, trace = []\<rparr>" shipments_request None]
  by (simp add: offline_net_def shipments_request_def demo_session_def login_def
        request_interceptor_def)

text \<open>
  C6, as the code has it. The request interceptor attaches \<open>Authorization: Bearer t\<close>
  when the session's access token \<open>t\<close> is non-null and not the empty string, and that is
  the config \<open>api\<close> sends; with a null access token the request is sent as it came.
\<close>

theorem bearer_attached_when_truthy:
  "(accessToken (auth w) = Some t \<and> t \<noteq> [] \<longrightarrow>
      request_interceptor (auth w) cfg = cfg\<lparr>authorization := Some (''Bearer '' @ t)\<rparr>
      \<and> (\<exists>rest. trace (snd (api net cfg w)) =
            trace w @ Sent (cfg\<lparr>authorization := Some (''Bearer '' @ t)\<rparr>) # rest))
   \<and> (accessToken (auth w) = None \<longrightarrow>
      request_interceptor (auth w) cfg = cfg
      \<and> (\<exists>rest. trace (snd (api net cfg w)) = trace w @ Sent cfg # rest))"
  using api_first_send [of net cfg w]
  by (auto simp: request_interceptor_def)

theorem bearer_attached_when_truthy_witness:
  "accessToken demo_session = Some ''T1''
   \<and> request_interceptor demo_session shipments_request =
       \<lparr>url = ''/shipments'', authorization = Some ''Bearer T1'', retry = False\<rparr>
   \<and> accessToken initial_state = None
   \<and> request_interceptor initial_state shipments_request = shipments_request"
  using bearer_attached_when_truthy
    [of "\<lparr>auth = demo_session, trace = []\<rparr>" "''T1''" shipments_request offline_net]
    bearer_attached_when_truthy
    [of "\<lparr>auth = initial_state, trace = []\<rparr>" "''T1''" shipments_request offline_net]
  by (simp add: demo_session_def login_def initial_state_def shipments_request_def)

text \<open>
  The claim C6 as written (every non-null access token is attached) fails for the empty
  string: after \<open>login\<close> with the access token \<open>""\<close> the token is not null, and the
  request leaves the interceptor without an Authorization header.
\<close>

theorem bearer_attached_counterexample:
  "accessToken (login (Some demo_user) '''' ''R1'' initial_state) \<noteq> None
   \<and> authorization
       (request_interceptor (login (Some demo_user) '''' ''R1'' initial_state)
          shipments_request) = None"
  by (simp add: login_def request_interceptor_def shipments_request_def)

text \<open>
  C10. When the session's access token is the empty string, the request interceptor
  returns the request as it came: it attaches no Authorization header, a request that
  had none is sent with none, and that unchanged config is what \<open>api\<close> sends.
\<close>

theorem empty_token_not_attached:
  "accessToken (auth w) = Some [] \<longrightarrow>
     request_interceptor (auth w) cfg = cfg
     \<and> (authorization cfg = None \<longrightarrow> authorization (request_interceptor (auth w) cfg) = None)
     \<and> (\<exists>rest. trace (snd (api net cfg w)) = trace w @ Sent cfg # rest)"
  using api_first_send [of net cfg w]
  by (auto simp: request_interceptor_def)

theorem empty_token_not_attached_witness:
  "accessToken (login (Some demo_user) '''' ''R1'' initial_state) = Some ''''
   \<and> api offline_net shipments_request
       \<lparr>auth = login (Some demo_user) '''' ''R1'' initial_state, trace = []\<rparr> =
     (Inl \<lparr>err_config = shipments_request, err_status = None\<rparr>,
      \<lparr>auth = login (Some demo_user) '''' ''R1'' initial_state,
       trace = [Sent shipments_request]\<rparr>)"
proof -
  let ?w = "\<lparr>auth = login (Some demo_user) '''' ''R1'' initial_state, trace = []\<rparr>"
  have tok: "accessToken (auth ?w) = Some []"
    by (simp add: login_def)
  have same: "request_interceptor (auth ?w) shipments_request = shipments_request"
    using empty_token_not_attached [of ?w shipments_request offline_net] tok by blast
  have "transport offline_net (trace ?w) (request_interceptor (auth ?w) shipments_request)
      = Rejected None"
    by (simp add: offline_net_def)
  then have "api offline_net shipments_request ?w =
      on_response_error offline_net
        \<lparr>err_config = request_interceptor (auth ?w) shipments_request, err_status = None\<rparr>
        (?w\<lparr>trace := trace ?w @ [Sent (request_interceptor (auth ?w) shipments_request)]\<rparr>)"
    by (rule api_rejected)
  then show ?thesis
    unfolding same using tok by (simp add: on_response_error_pass)
qed

end
